theory Spec2Isabelle
  imports Complex_Main "HOL-Library.Sublist"
begin

section \<open>The sequence classes of \<open>sequences.py\<close>\<close>

text \<open>
  The module defines three classes: \<open>Sequence\<close>, and its subclasses \<open>DNASequence\<close> and
  \<open>RNASequence\<close>. An instance is a Python object: it has a class and the attributes that
  some \<open>__init__\<close> has set so far. An attribute that was never set is \<open>None\<close> in the model,
  and reading it raises \<open>AttributeError\<close>, as in Python.

  Residues are a \<open>string\<close> (a list of characters). The quality is a number; it is modelled
  as a rational and Python's true division \<open>/\<close> as the exact quotient, so the rounding of
  a floating-point result is not part of the model.
\<close>

datatype klass = Sequence_class | DNASequence_class | RNASequence_class

record seq_obj =
  klass_of :: klass
  sequence :: "string option"
  quality :: "rat option"

text \<open>The exceptions the module can raise: three built-in ones and the \<open>Exception\<close>
  that \<open>RNASequence.__init__\<close> raises with a message.\<close>

datatype exn =
    AttributeError string
  | KeyError char
  | ZeroDivisionError
  | Exception string

text \<open>A fresh object of a class, before \<open>__init__\<close> runs: no attribute is set.\<close>

definition new :: "klass \<Rightarrow> seq_obj" where
  "new c = \<lparr>klass_of = c, sequence = None, quality = None\<rparr>"

definition get_sequence :: "seq_obj \<Rightarrow> exn + string" where
  "get_sequence self =
     (case sequence self of None \<Rightarrow> Inl (AttributeError ''sequence'') | Some s \<Rightarrow> Inr s)"

definition get_quality :: "seq_obj \<Rightarrow> exn + rat" where
  "get_quality self =
     (case quality self of None \<Rightarrow> Inl (AttributeError ''quality'') | Some q \<Rightarrow> Inr q)"

subsection \<open>Class \<open>Sequence\<close>\<close>

text \<open>\<open>Sequence.__init__(self, sequence, quality)\<close> stores both arguments.\<close>

definition Sequence_init :: "seq_obj \<Rightarrow> string \<Rightarrow> rat \<Rightarrow> seq_obj" where
  "Sequence_init self s q = self\<lparr>sequence := Some s, quality := Some q\<rparr>"

text \<open>The call \<open>Sequence(s, q)\<close>: a fresh object, initialised.\<close>

definition Sequence :: "string \<Rightarrow> rat \<Rightarrow> seq_obj" where
  "Sequence s q = Sequence_init (new Sequence_class) s q"

text \<open>
  \<open>Sequence.__add__(self, other)\<close>. The result starts as \<open>Sequence()\<close> (empty residues,
  quality 0); then its residues and its quality are assigned. The divisor is the sum of
  two lengths, and Python raises \<open>ZeroDivisionError\<close> when it is zero.
\<close>

definition Sequence_add :: "seq_obj \<Rightarrow> seq_obj \<Rightarrow> exn + seq_obj" where
  "Sequence_add self other =
     (let result = Sequence [] 0 in
      (case get_sequence self of Inl e \<Rightarrow> Inl e | Inr s1 \<Rightarrow>
      (case get_sequence other of Inl e \<Rightarrow> Inl e | Inr s2 \<Rightarrow>
      (let result = result\<lparr>sequence := Some (s1 @ s2)\<rparr> in
      (case get_quality self of Inl e \<Rightarrow> Inl e | Inr q1 \<Rightarrow>
      (case get_quality other of Inl e \<Rightarrow> Inl e | Inr q2 \<Rightarrow>
      (if length s1 + length s2 = 0 then Inl ZeroDivisionError
       else Inr (result\<lparr>quality :=
              Some ((of_nat (length s1) * q1 + of_nat (length s2) * q2)
                    / of_nat (length s1 + length s2))\<rparr>))))))))"

subsection \<open>Class \<open>RNASequence\<close>\<close>

definition rna_alphabet :: "char set" where
  "rna_alphabet = {CHR ''A'', CHR ''C'', CHR ''G'', CHR ''U''}"

text \<open>\<open>RNASequence.__init__\<close> raises when a residue is outside the alphabet.\<close>

definition RNASequence_init :: "seq_obj \<Rightarrow> string \<Rightarrow> rat \<Rightarrow> exn + seq_obj" where
  "RNASequence_init self s q =
     (if set s \<subseteq> rna_alphabet then Inr (Sequence_init self s q)
      else Inl (Exception ''The input sequence isn't valid RNA''))"

definition RNASequence :: "string \<Rightarrow> rat \<Rightarrow> exn + seq_obj" where
  "RNASequence s q = RNASequence_init (new RNASequence_class) s q"

subsection \<open>Class \<open>DNASequence\<close>\<close>

definition dna_alphabet :: "char set" where
  "dna_alphabet = {CHR ''A'', CHR ''C'', CHR ''G'', CHR ''T''}"

text \<open>
  \<open>DNASequence.__init__\<close> prints its argument, and prints a message when a residue is
  outside the alphabet. It raises nothing: on invalid input it returns without setting
  any attribute. The model returns the printed lines with the object.
\<close>

definition DNASequence_init :: "seq_obj \<Rightarrow> string \<Rightarrow> rat \<Rightarrow> string list \<times> seq_obj" where
  "DNASequence_init self s q =
     (if set s \<subseteq> dna_alphabet then ([s], Sequence_init self s q)
      else ([s, ''The input sequence isn't valid DNA input''], self))"

text \<open>The call \<open>DNASequence(s, q)\<close>: Python returns the object whatever \<open>__init__\<close> did.\<close>

definition DNASequence :: "string \<Rightarrow> rat \<Rightarrow> string list \<times> seq_obj" where
  "DNASequence s q = DNASequence_init (new DNASequence_class) s q"

text \<open>The dictionary \<open>complement\<close> of \<open>reverse_complement\<close>.\<close>

definition complement :: "char \<rightharpoonup> char" where
  "complement = [CHR ''A'' \<mapsto> CHR ''T'', CHR ''T'' \<mapsto> CHR ''A'',
                 CHR ''C'' \<mapsto> CHR ''G'', CHR ''G'' \<mapsto> CHR ''C'']"

text \<open>
  The loop of \<open>reverse_complement\<close> over the bases still to visit, with \<open>rc_seq\<close> as the
  accumulator. A base that is no key of the dictionary raises \<open>KeyError\<close>.
\<close>

fun rc_loop :: "string \<Rightarrow> string \<Rightarrow> exn + string" where
  "rc_loop [] rc_seq = Inr rc_seq"
| "rc_loop (base # bases) rc_seq =
     (case complement base of
        None \<Rightarrow> Inl (KeyError base)
      | Some c \<Rightarrow> rc_loop bases (rc_seq @ [c]))"

text \<open>\<open>DNASequence.reverse_complement(self)\<close>: the loop runs over the reversed residues, and
  the result is a plain \<open>Sequence\<close>.\<close>

definition reverse_complement :: "seq_obj \<Rightarrow> exn + seq_obj" where
  "reverse_complement self =
     (case get_sequence self of Inl e \<Rightarrow> Inl e | Inr s \<Rightarrow>
     (case rc_loop (rev s) [] of Inl e \<Rightarrow> Inl e | Inr rc_seq \<Rightarrow>
     (case get_quality self of Inl e \<Rightarrow> Inl e | Inr q \<Rightarrow>
      Inr (Sequence rc_seq q))))"

text \<open>\<open>DNASequence.transcribe(self)\<close>: the list comprehension gives one string per base,
  \<open>join\<close> concatenates them, and the result is built by \<open>RNASequence\<close>, which validates.\<close>

definition transcribe :: "seq_obj \<Rightarrow> exn + seq_obj" where
  "transcribe self =
     (case get_sequence self of Inl e \<Rightarrow> Inl e | Inr s \<Rightarrow>
     (let transcribed = concat (map (\<lambda>base. if base \<noteq> CHR ''T'' then [base] else ''U'') s) in
     (case get_quality self of Inl e \<Rightarrow> Inl e | Inr q \<Rightarrow>
      RNASequence transcribed q)))"

section \<open>Notions of the specification\<close>

text \<open>
  The specification describes the results with a pairing of bases (A with T, C with G),
  with the substitution of U for T, and with errors that identify a text. These are
  written here as the specification words them, to compare the code against.
\<close>

definition pairing :: "char \<Rightarrow> char" where
  "pairing b =
     (if b = CHR ''A'' then CHR ''T'' else if b = CHR ''T'' then CHR ''A''
      else if b = CHR ''C'' then CHR ''G'' else if b = CHR ''G'' then CHR ''C'' else b)"

definition t_to_u :: "char \<Rightarrow> char" where
  "t_to_u b = (if b = CHR ''T'' then CHR ''U'' else b)"

text \<open>An exception identifies a text when the text occurs in the exception's argument.\<close>

definition identifies :: "exn \<Rightarrow> string \<Rightarrow> bool" where
  "identifies e t =
     (case e of
        Exception msg \<Rightarrow> sublist t msg
      | AttributeError a \<Rightarrow> sublist t a
      | KeyError c \<Rightarrow> sublist t [c]
      | ZeroDivisionError \<Rightarrow> False)"

section \<open>Auxiliary facts\<close>

subsection \<open>The dictionary and the loop of \<open>reverse_complement\<close>\<close>

lemma complement_dna: "b \<in> dna_alphabet \<Longrightarrow> complement b = Some (pairing b)"
  by (auto simp: dna_alphabet_def complement_def pairing_def)

lemma complement_not_dna: "b \<notin> dna_alphabet \<Longrightarrow> complement b = None"
  by (simp add: dna_alphabet_def complement_def)

lemma pairing_dna: "b \<in> dna_alphabet \<Longrightarrow> pairing b \<in> dna_alphabet"
  by (auto simp: dna_alphabet_def pairing_def)

lemma pairing_pairing: "pairing (pairing b) = b"
  by (simp add: pairing_def)

lemma rc_loop_dna:
  "set bases \<subseteq> dna_alphabet \<Longrightarrow> rc_loop bases rc_seq = Inr (rc_seq @ map pairing bases)"
  by (induction bases arbitrary: rc_seq) (simp_all add: complement_dna)

lemma rc_loop_not_dna:
  "\<not> set bases \<subseteq> dna_alphabet \<Longrightarrow>
   \<exists>b \<in> set bases. b \<notin> dna_alphabet \<and> rc_loop bases rc_seq = Inl (KeyError b)"
proof (induction bases arbitrary: rc_seq)
  case Nil
  then show ?case by simp
next
  case (Cons base bases)
  show ?case
  proof (cases "base \<in> dna_alphabet")
    case True
    with Cons.prems have "\<not> set bases \<subseteq> dna_alphabet" by simp
    from Cons.IH [OF this, of "rc_seq @ [pairing base]"] True show ?thesis
      by (auto simp: complement_dna)
  next
    case False
    then show ?thesis by (simp add: complement_not_dna)
  qed
qed

lemma reverse_complement_fields:
  assumes "sequence self = Some s" and "quality self = Some q"
    and "set s \<subseteq> dna_alphabet"
  shows "reverse_complement self = Inr (Sequence (map pairing (rev s)) q)"
proof -
  have "set (rev s) \<subseteq> dna_alphabet" using assms(3) by simp
  then have "rc_loop (rev s) [] = Inr (map pairing (rev s))"
    by (simp add: rc_loop_dna)
  with assms(1,2) show ?thesis
    by (simp add: reverse_complement_def get_sequence_def get_quality_def)
qed

subsection \<open>The comprehension of \<open>transcribe\<close>\<close>

lemma concat_join: "concat (map (\<lambda>base. if base \<noteq> CHR ''T'' then [base] else ''U'') s) = map t_to_u s"
  by (induction s) (simp_all add: t_to_u_def)

lemma t_to_u_rna: "set s \<subseteq> dna_alphabet \<Longrightarrow> set (map t_to_u s) \<subseteq> rna_alphabet"
  by (auto simp: dna_alphabet_def rna_alphabet_def t_to_u_def)

subsection \<open>The weighted average\<close>


subsection \<open>Objects built by the constructors\<close>

lemma Sequence_fields:
  "klass_of (Sequence s q) = Sequence_class"
  "sequence (Sequence s q) = Some s"
  "quality (Sequence s q) = Some q"
  by (simp_all add: Sequence_def Sequence_init_def new_def)

lemma DNASequence_invalid:
  "\<not> set s \<subseteq> dna_alphabet \<Longrightarrow>
   DNASequence s q =
     ([s, ''The input sequence isn't valid DNA input''], new DNASequence_class)"
  by (simp add: DNASequence_def DNASequence_init_def)

text \<open>An object without attributes is of no use to the methods: each of them raises
  \<open>AttributeError\<close> at its first read.\<close>

lemma new_unusable:
  "transcribe (new c) = Inl (AttributeError ''sequence'')"
  "reverse_complement (new c) = Inl (AttributeError ''sequence'')"
  "Sequence_add (new c) other = Inl (AttributeError ''sequence'')"
  by (simp_all add: transcribe_def reverse_complement_def Sequence_add_def get_sequence_def new_def)

section \<open>Construction\<close>

text \<open>
  Claim C7. For every string \<open>s\<close> over A, C, G, T and every quality \<open>q\<close>, the call
  \<open>DNASequence(s, q)\<close> succeeds: it gives an instance of \<open>DNASequence\<close> whose residues
  are \<open>s\<close> and whose quality is \<open>q\<close> (and it prints \<open>s\<close>).
\<close>

theorem DNASequence_valid:
  assumes "set s \<subseteq> dna_alphabet"
  shows "DNASequence s q =
           ([s], \<lparr>klass_of = DNASequence_class, sequence = Some s, quality = Some q\<rparr>)"
  using assms by (simp add: DNASequence_def DNASequence_init_def Sequence_init_def new_def)

theorem DNASequence_valid_witness:
  "set ''AGT'' \<subseteq> dna_alphabet \<and>
   DNASequence ''AGT'' 27 =
     ([''AGT''], \<lparr>klass_of = DNASequence_class, sequence = Some ''AGT'', quality = Some 27\<rparr>)"
proof -
  have v: "set ''AGT'' \<subseteq> dna_alphabet" by (simp add: dna_alphabet_def)
  from v DNASequence_valid [OF v, of 27] show ?thesis by simp
qed

text \<open>
  Claim C1 asks that \<open>DNASequence(s, q)\<close> fail, and give no instance, when \<open>s\<close> has a
  character outside A, C, G, T. The code prints a message and returns an instance on
  which neither \<open>sequence\<close> nor \<open>quality\<close> is set, where \<open>RNASequence\<close> raises. At
  \<open>DNASequence('AGX', 27)\<close>:
\<close>

theorem DNASequence_invalid_example:
  "DNASequence ''AGX'' 27 =
     ([''AGX'', ''The input sequence isn't valid DNA input''],
      \<lparr>klass_of = DNASequence_class, sequence = None, quality = None\<rparr>)"
  by (simp add: DNASequence_def DNASequence_init_def dna_alphabet_def new_def)

text \<open>
  Claim C8, as stated, asks that the error of \<open>RNASequence(s, q)\<close> on an invalid \<open>s\<close>
  identify the invalid characters or the input. The exception carries one fixed message:
  at \<open>RNASequence('AGX', 30)\<close> neither \<open>AGX\<close> nor \<open>X\<close> occurs in it, and the exception
  is the one raised for the other invalid input \<open>T\<close>.
\<close>

theorem RNASequence_invalid_message_counterexample:
  "RNASequence ''AGX'' 30 = Inl (Exception ''The input sequence isn't valid RNA'') \<and>
   \<not> identifies (Exception ''The input sequence isn't valid RNA'') ''AGX'' \<and>
   \<not> identifies (Exception ''The input sequence isn't valid RNA'') ''X'' \<and>
   RNASequence ''AGX'' 30 = RNASequence ''T'' 30"
  by (simp add: RNASequence_def RNASequence_init_def rna_alphabet_def identifies_def
      sublist_code(3))

text \<open>
  Claim C8, amended. For every string \<open>s\<close> with a character outside A, C, G, U and every
  quality \<open>q\<close>, the call \<open>RNASequence(s, q)\<close> raises an \<open>Exception\<close> and gives no
  instance; its message is the fixed text \<open>The input sequence isn't valid RNA\<close>, which
  names the variant (RNA).
\<close>

theorem RNASequence_invalid:
  assumes "\<not> set s \<subseteq> rna_alphabet"
  shows "RNASequence s q = Inl (Exception ''The input sequence isn't valid RNA'') \<and>
         identifies (Exception ''The input sequence isn't valid RNA'') ''RNA''"
  using assms by (simp add: RNASequence_def RNASequence_init_def identifies_def sublist_code(3))

theorem RNASequence_invalid_witness:
  "\<not> set ''AGT'' \<subseteq> rna_alphabet \<and>
   RNASequence ''AGT'' 30 = Inl (Exception ''The input sequence isn't valid RNA'') \<and>
   identifies (Exception ''The input sequence isn't valid RNA'') ''RNA''"
proof -
  have v: "\<not> set ''AGT'' \<subseteq> rna_alphabet" by (simp add: rna_alphabet_def)
  from RNASequence_invalid [OF v, of 30] v show ?thesis by simp
qed

section \<open>Concatenation\<close>

text \<open>
  Claim C2. When the residues of \<open>a\<close> and of \<open>b\<close> are both empty, \<open>a + b\<close> fails: the
  division raises \<open>ZeroDivisionError\<close>, Python's exception for the degenerate
  combination, and no sequence and no number is returned.
\<close>

theorem add_empty_fails:
  assumes "sequence a = Some []" and "sequence b = Some []"
    and "quality a = Some qa" and "quality b = Some qb"
  shows "Sequence_add a b = Inl ZeroDivisionError"
  using assms by (simp add: Sequence_add_def get_sequence_def get_quality_def)

theorem add_empty_fails_witness:
  "sequence (Sequence [] 0) = Some [] \<and> quality (Sequence [] 0) = Some 0 \<and>
   Sequence_add (Sequence [] 0) (Sequence [] 0) = Inl ZeroDivisionError"
proof -
  have s: "sequence (Sequence [] 0) = Some []" and q: "quality (Sequence [] 0) = Some 0"
    by (simp_all add: Sequence_def Sequence_init_def new_def)
  from add_empty_fails [OF s s q q] s q show ?thesis by simp
qed





section \<open>Transcription\<close>

text \<open>
  Claim C4. For an object whose residues \<open>s\<close> are over A, C, G, T, \<open>transcribe\<close> gives an
  \<open>RNASequence\<close> of the same quality. Its residues have the length of \<open>s\<close>; position
  \<open>i\<close> holds U exactly when \<open>s\<close> holds T there, and the residue of \<open>s\<close> otherwise; and
  they are over A, C, G, U, so the validation of \<open>RNASequence\<close> passes. For \<open>AGT\<close> of
  quality 27 the result has residues \<open>AGU\<close> and quality 27.
\<close>

theorem transcribe_dna:
  assumes "sequence self = Some s" and "quality self = Some q"
    and "set s \<subseteq> dna_alphabet"
  shows "transcribe self =
           Inr \<lparr>klass_of = RNASequence_class, sequence = Some (map t_to_u s), quality = Some q\<rparr>
         \<and> length (map t_to_u s) = length s
         \<and> (\<forall>i < length s. (map t_to_u s ! i = CHR ''U'' \<longleftrightarrow> s ! i = CHR ''T'')
                          \<and> (s ! i \<noteq> CHR ''T'' \<longrightarrow> map t_to_u s ! i = s ! i))
         \<and> set (map t_to_u s) \<subseteq> rna_alphabet"
proof -
  have rna: "set (map t_to_u s) \<subseteq> rna_alphabet"
    using assms(3) by (rule t_to_u_rna)
  have "transcribe self = RNASequence (map t_to_u s) q"
    using assms(1,2) by (simp add: transcribe_def get_sequence_def get_quality_def concat_join)
  also have "\<dots> = Inr \<lparr>klass_of = RNASequence_class, sequence = Some (map t_to_u s), quality = Some q\<rparr>"
    using rna by (simp add: RNASequence_def RNASequence_init_def Sequence_init_def new_def)
  finally have res: "transcribe self =
      Inr \<lparr>klass_of = RNASequence_class, sequence = Some (map t_to_u s), quality = Some q\<rparr>" .
  have pos: "\<forall>i < length s. (map t_to_u s ! i = CHR ''U'' \<longleftrightarrow> s ! i = CHR ''T'')
                          \<and> (s ! i \<noteq> CHR ''T'' \<longrightarrow> map t_to_u s ! i = s ! i)"
  proof (intro allI impI)
    fix i assume i: "i < length s"
    then have "s ! i \<in> dna_alphabet" using assms(3) by (auto simp: subset_iff)
    then have "s ! i \<noteq> CHR ''U''" by (auto simp: dna_alphabet_def)
    with i show "(map t_to_u s ! i = CHR ''U'' \<longleftrightarrow> s ! i = CHR ''T'')
                          \<and> (s ! i \<noteq> CHR ''T'' \<longrightarrow> map t_to_u s ! i = s ! i)"
      by (simp add: t_to_u_def)
  qed
  from res pos rna show ?thesis by simp
qed

theorem transcribe_dna_witness:
  "sequence (snd (DNASequence ''AGT'' 27)) = Some ''AGT'' \<and>
   quality (snd (DNASequence ''AGT'' 27)) = Some 27 \<and>
   set ''AGT'' \<subseteq> dna_alphabet \<and>
   transcribe (snd (DNASequence ''AGT'' 27)) =
     Inr \<lparr>klass_of = RNASequence_class, sequence = Some ''AGU'', quality = Some 27\<rparr>"
proof -
  have v: "set ''AGT'' \<subseteq> dna_alphabet" by (simp add: dna_alphabet_def)
  have s: "sequence (snd (DNASequence ''AGT'' 27)) = Some ''AGT''"
    and q: "quality (snd (DNASequence ''AGT'' 27)) = Some 27"
    by (simp_all add: DNASequence_def DNASequence_init_def Sequence_init_def new_def dna_alphabet_def)
  from transcribe_dna [OF s q v] s q v show ?thesis by (simp add: t_to_u_def)
qed

section \<open>Reverse complement\<close>

text \<open>
  Claim C5. For an object whose residues \<open>s\<close> are over A, C, G, T, \<open>reverse_complement\<close>
  gives a sequence of the same quality whose residues are the reverse of \<open>s\<close> with each
  base replaced by its partner (A with T, C with G). For \<open>AGT\<close> the residues are \<open>ACT\<close>.
\<close>

theorem reverse_complement_dna:
  assumes "sequence self = Some s" and "quality self = Some q"
    and "set s \<subseteq> dna_alphabet"
  shows "reverse_complement self =
           Inr \<lparr>klass_of = Sequence_class, sequence = Some (map pairing (rev s)), quality = Some q\<rparr>"
  using reverse_complement_fields [OF assms]
  by (simp add: Sequence_def Sequence_init_def new_def)

theorem reverse_complement_dna_witness:
  "sequence (snd (DNASequence ''AGT'' 27)) = Some ''AGT'' \<and>
   quality (snd (DNASequence ''AGT'' 27)) = Some 27 \<and>
   set ''AGT'' \<subseteq> dna_alphabet \<and>
   reverse_complement (snd (DNASequence ''AGT'' 27)) =
     Inr \<lparr>klass_of = Sequence_class, sequence = Some ''ACT'', quality = Some 27\<rparr>"
proof -
  have v: "set ''AGT'' \<subseteq> dna_alphabet" by (simp add: dna_alphabet_def)
  have s: "sequence (snd (DNASequence ''AGT'' 27)) = Some ''AGT''"
    and q: "quality (snd (DNASequence ''AGT'' 27)) = Some 27"
    by (simp_all add: DNASequence_def DNASequence_init_def Sequence_init_def new_def dna_alphabet_def)
  from reverse_complement_dna [OF s q v] s q v show ?thesis by (simp add: pairing_def)
qed

text \<open>
  Claim C6. For an object whose residues are over A, C, G, T, applying
  \<open>reverse_complement\<close> twice gives back the residues. The first result is a plain
  \<open>Sequence\<close>, so the second application is that of the function
  \<open>DNASequence.reverse_complement\<close> to it.
\<close>

theorem reverse_complement_twice:
  assumes "sequence self = Some s" and "quality self = Some q"
    and "set s \<subseteq> dna_alphabet"
  shows "\<exists>r1 r2. reverse_complement self = Inr r1 \<and> klass_of r1 = Sequence_class \<and>
           reverse_complement r1 = Inr r2 \<and> sequence r2 = sequence self"
proof -
  let ?t = "map pairing (rev s)"
  have r1: "reverse_complement self = Inr (Sequence ?t q)"
    using assms by (rule reverse_complement_fields)
  have t: "set ?t \<subseteq> dna_alphabet"
    using assms(3) by (auto simp: pairing_dna)
  note fields = Sequence_fields [of ?t q]
  have inv: "map pairing (rev ?t) = s"
    by (simp add: rev_map pairing_pairing comp_def)
  have r2: "reverse_complement (Sequence ?t q) = Inr (Sequence s q)"
    using reverse_complement_fields [OF fields(2,3) t] inv by simp
  have "sequence (Sequence s q) = sequence self"
    using assms(1) by (simp add: Sequence_def Sequence_init_def new_def)
  with r1 r2 fields(1) show ?thesis by blast
qed

theorem reverse_complement_twice_witness:
  "sequence (snd (DNASequence ''AGT'' 27)) = Some ''AGT'' \<and>
   quality (snd (DNASequence ''AGT'' 27)) = Some 27 \<and>
   set ''AGT'' \<subseteq> dna_alphabet \<and>
   (\<exists>r1 r2. reverse_complement (snd (DNASequence ''AGT'' 27)) = Inr r1 \<and>
      klass_of r1 = Sequence_class \<and>
      reverse_complement r1 = Inr r2 \<and> sequence r2 = Some ''AGT'')"
proof -
  have v: "set ''AGT'' \<subseteq> dna_alphabet" by (simp add: dna_alphabet_def)
  have s: "sequence (snd (DNASequence ''AGT'' 27)) = Some ''AGT''"
    and q: "quality (snd (DNASequence ''AGT'' 27)) = Some 27"
    by (simp_all add: DNASequence_def DNASequence_init_def Sequence_init_def new_def dna_alphabet_def)
  from reverse_complement_twice [OF s q v] s q v show ?thesis by simp
qed

text \<open>
  Claim C9. For an object whose residues include a character outside A, C, G, T,
  \<open>reverse_complement\<close> fails: the lookup of such a residue in the dictionary raises
  \<open>KeyError\<close>, which carries that residue, and no sequence is returned.
\<close>

theorem reverse_complement_not_dna:
  assumes "sequence self = Some s" and "\<not> set s \<subseteq> dna_alphabet"
  shows "\<exists>b \<in> set s. b \<notin> dna_alphabet \<and> reverse_complement self = Inl (KeyError b)"
proof -
  have "\<not> set (rev s) \<subseteq> dna_alphabet" using assms(2) by simp
  from rc_loop_not_dna [OF this, of "[]"]
  obtain b where "b \<in> set s" "b \<notin> dna_alphabet" "rc_loop (rev s) [] = Inl (KeyError b)"
    by auto
  with assms(1) show ?thesis
    by (auto simp: reverse_complement_def get_sequence_def)
qed

theorem reverse_complement_not_dna_witness:
  "sequence ((new DNASequence_class)\<lparr>sequence := Some ''AXG''\<rparr>) = Some ''AXG'' \<and>
   \<not> set ''AXG'' \<subseteq> dna_alphabet \<and>
   reverse_complement ((new DNASequence_class)\<lparr>sequence := Some ''AXG''\<rparr>) = Inl (KeyError CHR ''X'')"
proof -
  have s: "sequence ((new DNASequence_class)\<lparr>sequence := Some ''AXG''\<rparr>) = Some ''AXG''"
    by simp
  have v: "\<not> set ''AXG'' \<subseteq> dna_alphabet" by (simp add: dna_alphabet_def)
  from reverse_complement_not_dna [OF s v] s v show ?thesis
    by (auto simp: dna_alphabet_def)
qed

end
